theory Spec2Isabelle
  imports Main "HOL-Library.Word"
begin

section \<open>Go values: unsigned 64-bit integers and panics\<close>

text \<open>
  Go's \<^verbatim>\<open>uint64\<close> is a 64-bit word: \<open>+\<close>, \<open>-\<close> and \<open>*\<close> wrap modulo \<open>2 ^ 64\<close>.
  Integer division by zero does not return: the runtime panics
  (\<^verbatim>\<open>runtime error: integer divide by zero\<close>). HOL's \<open>div\<close> returns 0 there, so
  every division of the source goes through \<open>uint64_div\<close>, which makes the panic a
  value. A type assertion \<^verbatim>\<open>x.(T)\<close> with one result panics as well
  (\<^verbatim>\<open>interface conversion\<close>) when \<open>x\<close> does not hold a \<open>T\<close>; \<open>OtherPanic\<close> stands for
  a panic raised inside a function that is not part of these sources.
\<close>

type_synonym uint64 = "64 word"

datatype panic = DivideByZero | InterfaceConversion | OtherPanic string

datatype 'a outcome = Returns 'a | Panics panic

definition uint64_div :: "uint64 \<Rightarrow> uint64 \<Rightarrow> uint64 outcome" where
  "uint64_div a b = (if b = 0 then Panics DivideByZero else Returns (a div b))"

section \<open>The consensus-layer configuration\<close>

text \<open>
  \<^verbatim>\<open>beacon.Eth2Config\<close>: the fields the sources read. Each one takes part in
  \<^verbatim>\<open>uint64\<close> arithmetic without a conversion (\<^verbatim>\<open>epochAt\<close> returns
  \<^verbatim>\<open>uint64\<close>), so each one is a \<^verbatim>\<open>uint64\<close>.
\<close>

record Eth2Config =
  GenesisEpoch :: uint64
  GenesisTime :: uint64
  SecondsPerSlot :: uint64
  SlotsPerEpoch :: uint64
  SecondsPerEpoch :: uint64

section \<open>The watchtower's epoch resolver\<close>

text \<open>
  \<^verbatim>\<open>
  func epochAt(config beacon.Eth2Config, time uint64) uint64 {
      return config.GenesisEpoch + (time - config.GenesisTime) / config.SecondsPerEpoch
  }
  \<close>
\<close>

definition epochAt :: "Eth2Config \<Rightarrow> uint64 \<Rightarrow> uint64 outcome" where
  "epochAt config time =
     (case uint64_div (time - GenesisTime config) (SecondsPerEpoch config) of
        Panics p \<Rightarrow> Panics p
      | Returns q \<Rightarrow> Returns (GenesisEpoch config + q))"

section \<open>Errors, log arguments and the observable trace\<close>

text \<open>
  A Go function returning \<^verbatim>\<open>(T, error)\<close> is modelled by \<open>error + T\<close>: every caller in the
  sources tests \<^verbatim>\<open>err != nil\<close> first and drops the value on that branch.
  \<^verbatim>\<open>fmt.Errorf(format, args..., err)\<close> with a final \<^verbatim>\<open>%w\<close> is kept structured: the format
  string, the other arguments, and the wrapped error.
\<close>

datatype arg = ArgUint64 uint64 | ArgSlice "arg list"

datatype error = ClientError string | Errorf string "arg list" error

text \<open>
  The types of the collaborators are declared outside these sources; each record has the
  fields the sources read. The header's \<^verbatim>\<open>Time\<close> is converted with \<^verbatim>\<open>int64(...)\<close> and
  the head's \<^verbatim>\<open>FinalizedEpoch\<close> is multiplied with a \<^verbatim>\<open>uint64\<close>; the three block numbers of
  the snapshot are converted with \<^verbatim>\<open>float64(...)\<close> and are taken as \<^verbatim>\<open>uint64\<close>, as the
  block numbers of the legacy path are.
\<close>

record Header =
  Time :: uint64

record BeaconHead =
  FinalizedEpoch :: uint64

record NetworkDetails =
  PricesBlock :: uint64
  LatestReportablePricesBlock :: uint64

record NetworkState =
  ElBlockNumber :: uint64
  NetworkDetails :: NetworkDetails

text \<open>
  What the manager does to the outside world, in order: the remote calls it issues, the
  snapshot builds it starts, the mutex operations, and the lines it hands to its logger.
\<close>

datatype event =
    EvGetEth2Config
  | EvGetBeaconHead
  | EvGetBeaconBlock string
  | EvHeaderByNumber
  | EvCreateNetworkState uint64 Eth2Config
  | EvLock
  | EvUnlock
  | EvPrintlnf string "arg list"

text \<open>
  The collaborators of one invocation. The execution client, the beacon client and the
  snapshot builder (\<^verbatim>\<open>CreateNetworkState\<close>, which is not part of these sources) are black
  boxes: the record holds their responses. \<open>bc_GetBeaconBlock env n id\<close> is the answer
  \<^verbatim>\<open>(block, exists, err)\<close> to the \<open>n\<close>-th probe of the invocation when it asks for block
  \<open>id\<close>, so the record covers every sequence of probe responses, also one that depends
  on the order of the calls. \<open>'b\<close> is \<^verbatim>\<open>beacon.BeaconBlock\<close>.
\<close>

record 'b env =
  bc_GetEth2Config :: "error + Eth2Config"
  bc_GetBeaconHead :: "error + BeaconHead"
  bc_GetBeaconBlock :: "nat \<Rightarrow> string \<Rightarrow> 'b \<times> bool \<times> error option"
  ec_HeaderByNumber :: "error + Header"
  CreateNetworkState :: "uint64 \<Rightarrow> Eth2Config \<Rightarrow> error + NetworkState"

section \<open>The network state manager\<close>

datatype ColorLogger = ColorLogger

text \<open>
  \<^verbatim>\<open>config.RocketPoolConfig\<close> is declared outside these sources. The constructor reads two
  things of it: \<^verbatim>\<open>cfg.Smartnode.Network.Value\<close>, a value of an interface type, on which it
  makes an unchecked type assertion, and the result of the call
  \<^verbatim>\<open>cfg.Smartnode.GetChainID()\<close>. The record holds both: the interface value either holds
  a \<^verbatim>\<open>cfgtypes.Network\<close> (a string) or something else, and the call either returns a chain
  id or panics.
\<close>

datatype iface = NetworkValue string | OtherValue

record RocketPoolConfig =
  Smartnode_Network_Value :: iface
  Smartnode_GetChainID :: "nat outcome"

text \<open>
  \<^verbatim>\<open>NetworkStateManager\<close>. The client handles \<^verbatim>\<open>rp\<close>, \<^verbatim>\<open>ec\<close> and \<^verbatim>\<open>bc\<close> are the
  environment above; \<^verbatim>\<open>log\<close> is a pointer that may be nil.
\<close>

record NetworkStateManager =
  cfg :: RocketPoolConfig
  log :: "ColorLogger option"
  Config :: RocketPoolConfig
  Network :: string
  ChainID :: nat
  BeaconConfig :: Eth2Config


text \<open>
  \<^verbatim>\<open>
  func (m *NetworkStateManager) getState(slotNumber uint64) (*NetworkState, error) {
      state, err := CreateNetworkState(m.cfg, m.rp, m.ec, m.bc, m.log, slotNumber, m.BeaconConfig)
      if err != nil { return nil, err }
      m.updateLock.Lock()
      defer m.updateLock.Unlock()
      return state, nil
  }
  \<close>
\<close>

definition getState :: "'b env \<Rightarrow> NetworkStateManager \<Rightarrow> uint64 \<Rightarrow> event list \<times> (error + NetworkState)" where
  "getState env m slotNumber =
     (case CreateNetworkState env slotNumber (BeaconConfig m) of
        Inl err \<Rightarrow> ([EvCreateNetworkState slotNumber (BeaconConfig m)], Inl err)
      | Inr state \<Rightarrow> ([EvCreateNetworkState slotNumber (BeaconConfig m), EvLock, EvUnlock], Inr state))"

definition GetStateForSlot :: "'b env \<Rightarrow> NetworkStateManager \<Rightarrow> uint64 \<Rightarrow> event list \<times> (error + NetworkState)" where
  "GetStateForSlot env m slotNumber = getState env m slotNumber"

subsection \<open>Time arithmetic of the Go library\<close>

text \<open>
  \<^verbatim>\<open>GetHeadState\<close> computes the seconds since genesis through the \<^verbatim>\<open>time\<close> package:
  \<^verbatim>\<open>
  latestBlockTime := time.Unix(int64(latestBlockHeader.Time), 0)
  genesisTime := time.Unix(int64(m.BeaconConfig.GenesisTime), 0)
  secondsSinceGenesis := uint64(latestBlockTime.Sub(genesisTime).Seconds())
  \<close>
  The library is modelled by its documentation, on integers:
  \<^item> \<^verbatim>\<open>int64(x)\<close> of a \<^verbatim>\<open>uint64\<close> keeps the bits: the two's complement reading \<open>sint\<close>.
  \<^item> \<^verbatim>\<open>time.Unix(sec, 0)\<close> is the instant \<open>sec\<close> seconds after the Unix epoch. "Not all sec
    values have a corresponding time value": the library counts seconds from year 1 in an
    \<^verbatim>\<open>int64\<close>, which is \<open>sec + 62135596800\<close>, so \<open>sec\<close> has a time value when that sum
    is below \<open>2 ^ 63\<close>.
  \<^item> \<^verbatim>\<open>t.Sub(u)\<close> is the \<^verbatim>\<open>Duration\<close> \<open>t - u\<close> in nanoseconds, an \<^verbatim>\<open>int64\<close>; "if the result
    exceeds the maximum (or minimum) value that can be stored in a Duration, the maximum
    (or minimum) duration will be returned".
  \<^item> \<^verbatim>\<open>d.Seconds()\<close> is the \<^verbatim>\<open>float64\<close> \<open>float64(d / 1e9) + float64(d % 1e9) / 1e9\<close>, and
    \<^verbatim>\<open>uint64(f)\<close> discards the fraction of \<open>f\<close>. Only the integer part of the float
    matters, and \<open>Duration_Seconds\<close> is that integer part. It is exact for every
    duration that \<open>Sub\<close> returns here: a whole number of seconds below \<open>2 ^ 53\<close> is a
    \<^verbatim>\<open>float64\<close>, and at the two saturated durations the fraction (about 0.8548) is far from
    rounding to the next integer.
  \<^item> \<^verbatim>\<open>uint64(f)\<close> of a float whose integer part is not a \<^verbatim>\<open>uint64\<close> (here: negative) is
    "implementation-dependent" in the language specification.
  What the documentation leaves open is a parameter of the model, \<open>go_impl\<close>: the
  duration \<open>Sub\<close> returns when an operand has no time value, the conversion of an
  unrepresentable float, given its integer part, and (for the metrics collector below)
  \<^verbatim>\<open>(*big.Int).Uint64()\<close> of a number that is no \<^verbatim>\<open>uint64\<close>, whose result "is undefined".
\<close>

record go_impl =
  Sub_no_time_value :: "int \<Rightarrow> int \<Rightarrow> 64 word"
  uint64_float_out_of_range :: "int \<Rightarrow> uint64"
  big_Uint64_out_of_range :: "int \<Rightarrow> uint64"

definition int64 :: "uint64 \<Rightarrow> int" where
  "int64 x = sint x"

definition Unix_representable :: "int \<Rightarrow> bool" where
  "Unix_representable sec = (sec + 62135596800 < 2 ^ 63)"

definition maxDuration :: int where
  "maxDuration = 2 ^ 63 - 1"

definition minDuration :: int where
  "minDuration = - (2 ^ 63)"

definition time_Sub :: "go_impl \<Rightarrow> int \<Rightarrow> int \<Rightarrow> int" where
  "time_Sub impl t u =
     (if Unix_representable t \<and> Unix_representable u then
        (let d = (t - u) * 1000000000
         in if maxDuration < d then maxDuration else if d < minDuration then minDuration else d)
      else sint (Sub_no_time_value impl t u))"

definition Duration_Seconds :: "int \<Rightarrow> int" where
  "Duration_Seconds d = sgn d * (\<bar>d\<bar> div 1000000000)"

definition uint64_of_float64 :: "go_impl \<Rightarrow> int \<Rightarrow> uint64" where
  "uint64_of_float64 impl n =
     (if 0 \<le> n \<and> n < 2 ^ 64 then word_of_int n else uint64_float_out_of_range impl n)"

subsection \<open>The snapshot at the execution head\<close>

text \<open>
  \<^verbatim>\<open>
  func (m *NetworkStateManager) GetHeadState() (*NetworkState, error) {
      latestBlockHeader, err := m.ec.HeaderByNumber(context.Background(), nil)
      if err != nil {
          return nil, fmt.Errorf("error getting latest EL block: %w", err)
      }
      latestBlockTime := time.Unix(int64(latestBlockHeader.Time), 0)
      genesisTime := time.Unix(int64(m.BeaconConfig.GenesisTime), 0)
      secondsSinceGenesis := uint64(latestBlockTime.Sub(genesisTime).Seconds())
      targetSlot := secondsSinceGenesis / m.BeaconConfig.SecondsPerSlot
      return m.getState(targetSlot)
  }
  \<close>
\<close>

definition secondsSinceGenesis :: "go_impl \<Rightarrow> uint64 \<Rightarrow> uint64 \<Rightarrow> uint64" where
  "secondsSinceGenesis impl headerTime configGenesisTime =
     (let latestBlockTime = int64 headerTime;
          genesisTime = int64 configGenesisTime
      in uint64_of_float64 impl (Duration_Seconds (time_Sub impl latestBlockTime genesisTime)))"

definition GetHeadState ::
    "go_impl \<Rightarrow> 'b env \<Rightarrow> NetworkStateManager \<Rightarrow> event list \<times> (error + NetworkState) outcome" where
  "GetHeadState impl env m =
     (case ec_HeaderByNumber env of
        Inl err \<Rightarrow> ([EvHeaderByNumber], Returns (Inl (Errorf ''error getting latest EL block: %w'' [] err)))
      | Inr latestBlockHeader \<Rightarrow>
          (case uint64_div (secondsSinceGenesis impl (Time latestBlockHeader) (GenesisTime (BeaconConfig m)))
                  (SecondsPerSlot (BeaconConfig m)) of
             Panics p \<Rightarrow> ([EvHeaderByNumber], Panics p)
           | Returns targetSlot \<Rightarrow>
               (case getState env m targetSlot of
                  (tr, r) \<Rightarrow> (EvHeaderByNumber # tr, Returns r))))"

subsection \<open>The finalized-block locator\<close>

text \<open>
  \<^verbatim>\<open>fmt.Sprint(targetSlot)\<close> of a \<^verbatim>\<open>uint64\<close>: its decimal digits.
\<close>

function fmt_decimal :: "nat \<Rightarrow> string" where
  "fmt_decimal n =
     (if n < 10 then [''0123456789'' ! n]
      else fmt_decimal (n div 10) @ [''0123456789'' ! (n mod 10)])"
  by pat_completeness auto
termination
  by (relation "measure id") auto

declare fmt_decimal.simps [simp del]

definition fmt_Sprint :: "uint64 \<Rightarrow> string" where
  "fmt_Sprint x = fmt_decimal (unat x)"

text \<open>
  \<^verbatim>\<open>
  func (m *NetworkStateManager) logLine(format string, v ...interface{}) {
      if m.log != nil {
          m.log.Printlnf(format, v)
      }
  }
  \<close>
  Nothing is printed when the manager has no logger. The variadic slice is passed on as
  one argument.
\<close>

definition logLine :: "NetworkStateManager \<Rightarrow> string \<Rightarrow> arg list \<Rightarrow> event list" where
  "logLine m format v =
     (case log m of None \<Rightarrow> [] | Some l \<Rightarrow> [EvPrintlnf format [ArgSlice v]])"

text \<open>
  The loop of \<^verbatim>\<open>GetLatestFinalizedBeaconBlock\<close>:
  \<^verbatim>\<open>
  for {
      block, exists, err := m.bc.GetBeaconBlock(fmt.Sprint(targetSlot))
      if err != nil {
          return beacon.BeaconBlock{}, fmt.Errorf("error getting Beacon block %d: %w", targetSlot, err)
      }
      if !exists {
          m.logLine("Slot %d was missing, trying the previous one...", targetSlot)
          targetSlot--
      } else {
          return block, nil
      }
  }
  \<close>
  The loop has no bound, so it is a partial function: \<open>None\<close> is the run that never
  returns. \<open>n\<close> counts the probes made so far and \<open>tr\<close> is the trace so far.
  \<open>targetSlot - 1\<close> wraps at 0, as \<^verbatim>\<open>targetSlot--\<close> does on a \<^verbatim>\<open>uint64\<close>.
\<close>

partial_function (option) probe_loop ::
    "(nat \<Rightarrow> string \<Rightarrow> 'b \<times> bool \<times> error option) \<Rightarrow> NetworkStateManager \<Rightarrow> nat \<Rightarrow> uint64 \<Rightarrow>
     event list \<Rightarrow> (event list \<times> (error + 'b)) option" where
  "probe_loop GetBeaconBlock m n targetSlot tr =
     (case GetBeaconBlock n (fmt_Sprint targetSlot) of
        (block, exists, err) \<Rightarrow>
          (case err of
             Some e \<Rightarrow>
               Some (tr @ [EvGetBeaconBlock (fmt_Sprint targetSlot)],
                     Inl (Errorf ''error getting Beacon block %d: %w'' [ArgUint64 targetSlot] e))
           | None \<Rightarrow>
               if \<not> exists then
                 probe_loop GetBeaconBlock m (Suc n) (targetSlot - 1)
                   (tr @ [EvGetBeaconBlock (fmt_Sprint targetSlot)]
                       @ logLine m ''Slot %d was missing, trying the previous one...'' [ArgUint64 targetSlot])
               else Some (tr @ [EvGetBeaconBlock (fmt_Sprint targetSlot)], Inr block)))"

text \<open>
  \<^verbatim>\<open>
  func (m *NetworkStateManager) GetLatestFinalizedBeaconBlock() (beacon.BeaconBlock, error) {
      head, err := m.bc.GetBeaconHead()
      if err != nil {
          return beacon.BeaconBlock{}, fmt.Errorf("error getting Beacon chain head: %w", err)
      }
      targetSlot := head.FinalizedEpoch*m.BeaconConfig.SlotsPerEpoch + (m.BeaconConfig.SlotsPerEpoch - 1)
      for { ... }
  }
  \<close>
\<close>

definition GetLatestFinalizedBeaconBlock ::
    "'b env \<Rightarrow> NetworkStateManager \<Rightarrow> (event list \<times> (error + 'b)) option" where
  "GetLatestFinalizedBeaconBlock env m =
     (case bc_GetBeaconHead env of
        Inl err \<Rightarrow> Some ([EvGetBeaconHead], Inl (Errorf ''error getting Beacon chain head: %w'' [] err))
      | Inr head \<Rightarrow>
          probe_loop (bc_GetBeaconBlock env) m 0
            (FinalizedEpoch head * SlotsPerEpoch (BeaconConfig m) + (SlotsPerEpoch (BeaconConfig m) - 1))
            [EvGetBeaconHead])"

text \<open>
  Two notions for stating what the loop does. A probe is \<open>missing\<close> when it answers
  \<^verbatim>\<open>exists == false\<close> with a nil error: the only answer after which the loop goes on.
  \<open>skips m targetSlot k\<close> is the trace of \<open>k\<close> such rounds from \<open>targetSlot\<close> downwards:
  each round is the probe followed by what \<open>logLine\<close> prints. \<open>skip_line\<close> is the line
  a logger receives for one skipped slot.
\<close>

definition missing :: "(nat \<Rightarrow> string \<Rightarrow> 'b \<times> bool \<times> error option) \<Rightarrow> nat \<Rightarrow> uint64 \<Rightarrow> bool" where
  "missing GetBeaconBlock n targetSlot = (snd (GetBeaconBlock n (fmt_Sprint targetSlot)) = (False, None))"

primrec skips :: "NetworkStateManager \<Rightarrow> uint64 \<Rightarrow> nat \<Rightarrow> event list" where
  "skips m targetSlot 0 = []"
| "skips m targetSlot (Suc k) =
     EvGetBeaconBlock (fmt_Sprint targetSlot)
       # logLine m ''Slot %d was missing, trying the previous one...'' [ArgUint64 targetSlot]
       @ skips m (targetSlot - 1) k"

definition skip_line :: "uint64 \<Rightarrow> event" where
  "skip_line targetSlot =
     EvPrintlnf ''Slot %d was missing, trying the previous one...'' [ArgSlice [ArgUint64 targetSlot]]"

fun isPrintlnf :: "event \<Rightarrow> bool" where
  "isPrintlnf (EvPrintlnf format v) = True"
| "isPrintlnf e = False"

section \<open>The ODAO metrics collector\<close>

text \<open>
  A gauge value is a \<^verbatim>\<open>float64\<close>. Every value the collector emits is \<open>-1\<close> or
  \<^verbatim>\<open>float64(x)\<close> of a \<^verbatim>\<open>uint64\<close>, which is a whole number: the model keeps these floats as
  integers. \<^verbatim>\<open>float64(x)\<close> is exact below \<open>2 ^ 53\<close>; above, \<open>x\<close> is rounded to 53
  significant bits, to nearest, ties to even.
\<close>

type_synonym float64 = int

definition float64_of_uint64 :: "uint64 \<Rightarrow> float64" where
  "float64_of_uint64 x =
     (let n = unat x;
          e = length (filter (\<lambda>j. 2 ^ (53 + j) \<le> n) [0..<11]);
          q = n div 2 ^ e;
          r = n mod 2 ^ e
      in if e = 0 then int n
         else if 2 ^ (e - 1) < r \<or> (r = 2 ^ (e - 1) \<and> odd q) then int ((q + 1) * 2 ^ e)
         else int (q * 2 ^ e))"

datatype desc = currentEth1Block | pricesBlock | effectiveRplStakeBlock | latestReportableBlock

datatype rpc_call = BlockNumber | GetPricesBlock | GetLatestReportablePricesBlock

text \<open>
  The answers of the three direct queries of the legacy path. The latest reportable block
  is a \<^verbatim>\<open>*big.Int\<close>, an unbounded integer.
\<close>

record legacy_rpc =
  rp_Client_BlockNumber :: "error + uint64"
  network_GetPricesBlock :: "error + uint64"
  network_GetLatestReportablePricesBlock :: "error + int"

definition big_Uint64 :: "go_impl \<Rightarrow> int \<Rightarrow> uint64" where
  "big_Uint64 impl x = (if 0 \<le> x \<and> x < 2 ^ 64 then word_of_int x else big_Uint64_out_of_range impl x)"

text \<open>
  What one \<^verbatim>\<open>Collect\<close> does: the direct queries it issues (three goroutines issue them
  in no fixed order, so they are a set), the metrics it sends on the channel, in order,
  and the errors \<^verbatim>\<open>logError\<close> prints.
\<close>

record collected =
  rpc_calls :: "rpc_call set"
  channel :: "(desc \<times> float64) list"
  printed :: "error list"

record legacy_vars =
  blockNumberFloat :: float64
  pricesBlockFloat :: float64
  effectiveRplStakeBlockFloat :: float64
  latestReportableBlockFloat :: float64

text \<open>
  The three functions started with \<^verbatim>\<open>wg.Go\<close>. Each returns its error and assigns its
  variables on success:
  \<^verbatim>\<open>
  wg.Go(func() error {
      pricesBlock, err := network.GetPricesBlock(collector.rp, nil)
      if err != nil {
          return fmt.Errorf("Error getting ETH1 prices block: %w", err)
      }
      pricesBlockFloat = float64(pricesBlock)
      effectiveRplStakeBlockFloat = float64(pricesBlock)
      return nil
  })
  \<close>
\<close>

definition go_BlockNumber :: "legacy_rpc \<Rightarrow> legacy_vars \<Rightarrow> error option \<times> legacy_vars" where
  "go_BlockNumber rpc v =
     (case rp_Client_BlockNumber rpc of
        Inl err \<Rightarrow> (Some (Errorf ''Error getting latest ETH1 block: %w'' [] err), v)
      | Inr blockNumber \<Rightarrow> (None, v\<lparr>blockNumberFloat := float64_of_uint64 blockNumber\<rparr>))"

definition go_PricesBlock :: "legacy_rpc \<Rightarrow> legacy_vars \<Rightarrow> error option \<times> legacy_vars" where
  "go_PricesBlock rpc v =
     (case network_GetPricesBlock rpc of
        Inl err \<Rightarrow> (Some (Errorf ''Error getting ETH1 prices block: %w'' [] err), v)
      | Inr pb \<Rightarrow>
          (None, v\<lparr>pricesBlockFloat := float64_of_uint64 pb,
                   effectiveRplStakeBlockFloat := float64_of_uint64 pb\<rparr>))"

definition go_LatestReportableBlock :: "go_impl \<Rightarrow> legacy_rpc \<Rightarrow> legacy_vars \<Rightarrow> error option \<times> legacy_vars" where
  "go_LatestReportableBlock impl rpc v =
     (case network_GetLatestReportablePricesBlock rpc of
        Inl err \<Rightarrow> (Some (Errorf ''Error getting ETH1 latest reportable block: %w'' [] err), v)
      | Inr lrb \<Rightarrow> (None, v\<lparr>latestReportableBlockFloat := float64_of_uint64 (big_Uint64 impl lrb)\<rparr>))"

text \<open>
  \<^verbatim>\<open>wg.Wait()\<close> of an \<^verbatim>\<open>errgroup.Group\<close> waits for all functions and returns the first
  non-nil error that one of them returned, in the order they finished. That order is the
  scheduler's: \<open>sched\<close> picks which of the failed functions was first.
\<close>

definition wg_Wait :: "nat \<Rightarrow> error option list \<Rightarrow> error option" where
  "wg_Wait sched results =
     (case List.map_filter id results of
        [] \<Rightarrow> None
      | e # es \<Rightarrow> Some ((e # es) ! (sched mod length (e # es))))"

text \<open>
  \<^verbatim>\<open>collectImpl_Legacy\<close>: the four variables start at \<open>-1\<close>; the three functions write
  disjoint variables, so their interleaving does not change the values read after
  \<^verbatim>\<open>wg.Wait()\<close>; on an error the collector prints it and sends nothing.
\<close>

definition collectImpl_Legacy :: "nat \<Rightarrow> go_impl \<Rightarrow> legacy_rpc \<Rightarrow> collected" where
  "collectImpl_Legacy sched impl rpc =
     (let v0 = \<lparr>blockNumberFloat = - 1, pricesBlockFloat = - 1,
                effectiveRplStakeBlockFloat = - 1, latestReportableBlockFloat = - 1\<rparr>;
          (e1, v1) = go_BlockNumber rpc v0;
          (e2, v2) = go_PricesBlock rpc v1;
          (e3, v3) = go_LatestReportableBlock impl rpc v2
      in case wg_Wait sched [e1, e2, e3] of
           Some err \<Rightarrow>
             \<lparr>rpc_calls = {BlockNumber, GetPricesBlock, GetLatestReportablePricesBlock},
              channel = [], printed = [err]\<rparr>
         | None \<Rightarrow>
             \<lparr>rpc_calls = {BlockNumber, GetPricesBlock, GetLatestReportablePricesBlock},
              channel = [(currentEth1Block, blockNumberFloat v3),
                         (pricesBlock, pricesBlockFloat v3),
                         (effectiveRplStakeBlock, effectiveRplStakeBlockFloat v3),
                         (latestReportableBlock, latestReportableBlockFloat v3)],
              printed = []\<rparr>)"

text \<open>
  \<^verbatim>\<open>
  blockNumberFloat := float64(state.ElBlockNumber)
  pricesBlockFloat := float64(state.NetworkDetails.PricesBlock)
  effectiveRplStakeBlockFloat := pricesBlockFloat
  latestReportableBlockFloat := float64(state.NetworkDetails.LatestReportablePricesBlock)
  \<close>
\<close>

definition collectImpl_Atlas :: "NetworkState \<Rightarrow> collected" where
  "collectImpl_Atlas state =
     (let blockNumberFloat = float64_of_uint64 (ElBlockNumber state);
          pricesBlockFloat = float64_of_uint64 (PricesBlock (NetworkDetails state));
          effectiveRplStakeBlockFloat = pricesBlockFloat;
          latestReportableBlockFloat = float64_of_uint64 (LatestReportablePricesBlock (NetworkDetails state))
      in \<lparr>rpc_calls = {},
          channel = [(currentEth1Block, blockNumberFloat),
                     (pricesBlock, pricesBlockFloat),
                     (effectiveRplStakeBlock, effectiveRplStakeBlockFloat),
                     (latestReportableBlock, latestReportableBlockFloat)],
          printed = []\<rparr>)"

text \<open>
  \<^verbatim>\<open>
  func (collector *OdaoCollector) Collect(channel chan<- prometheus.Metric) {
      latestState := collector.stateLocker.GetState()
      if latestState == nil {
          collector.collectImpl_Legacy(channel)
      } else {
          collector.collectImpl_Atlas(latestState, channel)
      }
  }
  \<close>
  The state locker is not part of these sources: \<open>latestState\<close> is what its
  \<^verbatim>\<open>GetState()\<close> returned, \<open>None\<close> for nil.
\<close>

definition OdaoCollector_Collect :: "nat \<Rightarrow> go_impl \<Rightarrow> legacy_rpc \<Rightarrow> NetworkState option \<Rightarrow> collected" where
  "OdaoCollector_Collect sched impl rpc latestState =
     (case latestState of
        None \<Rightarrow> collectImpl_Legacy sched impl rpc
      | Some state \<Rightarrow> collectImpl_Atlas state)"

section \<open>Concrete scenarios\<close>

text \<open>
  The configuration of the specification's end-to-end scenarios (genesis at 1000, 12-second
  slots, 32 slots per epoch), a manager built on it, with or without a logger (from
  \<open>scenario_cfg\<close>; the network parameter of \<open>mistyped_cfg\<close> holds no network), and
  collaborators: a beacon head whose finalized epoch is 3, an execution header with a
  given timestamp, a snapshot builder that always succeeds, and a given table of probe
  answers. In the tables of probe answers a block is its own id: in \<open>only_125_exists\<close>
  only block 125 exists, in \<open>only_max_exists\<close> only block \<open>2 ^ 64 - 1\<close>, in
  \<open>nothing_exists\<close> none, and in \<open>probe_126_fails\<close> the probe of block 126 fails with a
  timeout. \<open>scenario_rpc\<close> holds answers to the collector's three direct queries.
  \<open>example_impl\<close> is one way to fill what the Go documentation leaves open: an
  unrepresentable float converts through the bits of its integer part.
\<close>

definition scenario_config :: Eth2Config where
  "scenario_config =
     \<lparr>GenesisEpoch = 0, GenesisTime = 1000, SecondsPerSlot = 12, SlotsPerEpoch = 32,
      SecondsPerEpoch = 384\<rparr>"

definition scenario_cfg :: RocketPoolConfig where
  "scenario_cfg = \<lparr>Smartnode_Network_Value = NetworkValue ''prater'', Smartnode_GetChainID = Returns 5\<rparr>"


definition scenario_manager :: "ColorLogger option \<Rightarrow> NetworkStateManager" where
  "scenario_manager lg =
     \<lparr>cfg = scenario_cfg, log = lg, Config = scenario_cfg,
      Network = ''prater'', ChainID = 5, BeaconConfig = scenario_config\<rparr>"

definition example_impl :: go_impl where
  "example_impl =
     \<lparr>Sub_no_time_value = (\<lambda>t u. word_of_int minDuration),
      uint64_float_out_of_range = (\<lambda>n. word_of_int n),
      big_Uint64_out_of_range = (\<lambda>x. word_of_int \<bar>x\<bar>)\<rparr>"

definition scenario_state :: "uint64 \<Rightarrow> NetworkState" where
  "scenario_state slot =
     \<lparr>ElBlockNumber = 17000000 + slot,
      NetworkDetails = \<lparr>PricesBlock = 16999000, LatestReportablePricesBlock = 16999500\<rparr>\<rparr>"

definition scenario_env :: "uint64 \<Rightarrow> (nat \<Rightarrow> string \<Rightarrow> string \<times> bool \<times> error option) \<Rightarrow> string env" where
  "scenario_env headerTime probes =
     \<lparr>bc_GetEth2Config = Inr scenario_config,
      bc_GetBeaconHead = Inr \<lparr>FinalizedEpoch = 3\<rparr>,
      bc_GetBeaconBlock = probes,
      ec_HeaderByNumber = Inr \<lparr>Time = headerTime\<rparr>,
      CreateNetworkState = (\<lambda>slot c. Inr (scenario_state slot))\<rparr>"

definition only_125_exists :: "nat \<Rightarrow> string \<Rightarrow> string \<times> bool \<times> error option" where
  "only_125_exists n blockId = (blockId, blockId = ''125'', None)"

definition probe_126_fails :: "nat \<Rightarrow> string \<Rightarrow> string \<times> bool \<times> error option" where
  "probe_126_fails n blockId =
     (blockId, False, if blockId = ''126'' then Some (ClientError ''timeout'') else None)"

definition nothing_exists :: "nat \<Rightarrow> string \<Rightarrow> string \<times> bool \<times> error option" where
  "nothing_exists n blockId = (blockId, False, None)"

definition only_max_exists :: "nat \<Rightarrow> string \<Rightarrow> string \<times> bool \<times> error option" where
  "only_max_exists n blockId = (blockId, blockId = ''18446744073709551615'', None)"

definition scenario_rpc :: legacy_rpc where
  "scenario_rpc =
     \<lparr>rp_Client_BlockNumber = Inr 17000050,
      network_GetPricesBlock = Inr 16999000,
      network_GetLatestReportablePricesBlock = Inr 16999500\<rparr>"

section \<open>Properties of the epoch resolver\<close>

text \<open>
  C6, as amended. From the genesis time on, \<open>epochAt\<close> returns the genesis epoch plus the
  whole number of epochs elapsed, provided the epoch length is not zero: the sum is a
  \<^verbatim>\<open>uint64\<close>, so it is taken modulo \<open>2 ^ 64\<close>, and it is the exact sum whenever that is
  below \<open>2 ^ 64\<close>. With an epoch length of zero the division panics. The function has
  no other input and no effect, so it is pure and deterministic.
\<close>

theorem epochAt_from_genesis_on:
  assumes ge: "GenesisTime c \<le> t"
  shows "epochAt c t =
           (if SecondsPerEpoch c = 0 then Panics DivideByZero
            else Returns (word_of_nat
                   (unat (GenesisEpoch c) + (unat t - unat (GenesisTime c)) div unat (SecondsPerEpoch c))))
         \<and> (SecondsPerEpoch c \<noteq> 0
              \<and> unat (GenesisEpoch c) + (unat t - unat (GenesisTime c)) div unat (SecondsPerEpoch c) < 2 ^ 64 \<longrightarrow>
            (\<exists>e. epochAt c t = Returns e
                 \<and> unat e = unat (GenesisEpoch c) + (unat t - unat (GenesisTime c)) div unat (SecondsPerEpoch c)))"
proof -
  have eq: "epochAt c t =
           (if SecondsPerEpoch c = 0 then Panics DivideByZero
            else Returns (word_of_nat
                   (unat (GenesisEpoch c) + (unat t - unat (GenesisTime c)) div unat (SecondsPerEpoch c))))"
    using ge by (simp add: epochAt_def uint64_div_def unat_sub[symmetric] unat_div[symmetric])
  show ?thesis
  proof (intro conjI impI)
    show "epochAt c t =
           (if SecondsPerEpoch c = 0 then Panics DivideByZero
            else Returns (word_of_nat
                   (unat (GenesisEpoch c) + (unat t - unat (GenesisTime c)) div unat (SecondsPerEpoch c))))"
      by (rule eq)
  next
    assume a: "SecondsPerEpoch c \<noteq> 0
              \<and> unat (GenesisEpoch c) + (unat t - unat (GenesisTime c)) div unat (SecondsPerEpoch c) < 2 ^ 64"
    define N where "N = unat (GenesisEpoch c) + (unat t - unat (GenesisTime c)) div unat (SecondsPerEpoch c)"
    have "N < 2 ^ 64" using a by (simp only: N_def)
    then have "unat (word_of_nat N :: uint64) = N" by (simp add: unat_of_nat)
    moreover have "epochAt c t = Returns (word_of_nat N)" using eq a by (simp only: N_def if_False)
    ultimately show "\<exists>e. epochAt c t = Returns e
                 \<and> unat e = unat (GenesisEpoch c) + (unat t - unat (GenesisTime c)) div unat (SecondsPerEpoch c)"
      unfolding N_def[symmetric] by blast
  qed
qed

text \<open>
  C6, an instance: with 384-second epochs and genesis at 1000, time 2927 is in epoch 5.
\<close>

theorem epochAt_from_genesis_on_witness:
  "GenesisTime scenario_config \<le> 2927 \<and> epochAt scenario_config 2927 = Returns 5"
  using epochAt_from_genesis_on [of scenario_config 2927]
  by (simp add: scenario_config_def)

text \<open>
  C6 as stated fails for a configuration whose epoch length is zero: at a time after
  genesis \<open>epochAt\<close> does not return an epoch, it panics.
\<close>

theorem epochAt_zero_epoch_length:
  "GenesisTime (scenario_config\<lparr>SecondsPerEpoch := 0\<rparr>) \<le> 1600
   \<and> epochAt (scenario_config\<lparr>SecondsPerEpoch := 0\<rparr>) 1600 = Panics DivideByZero"
  by (simp add: scenario_config_def epochAt_def uint64_div_def)

text \<open>
  C9, as amended. Before the genesis time \<open>epochAt\<close> signals nothing: unless the epoch
  length is zero (then it panics, as at any other time), it returns the genesis epoch
  plus the quotient of the wrapped difference, which is \<open>2 ^ 64 - (GenesisTime - t)\<close>, by
  the epoch length; the sum is again taken modulo \<open>2 ^ 64\<close>.
\<close>

theorem epochAt_before_genesis:
  assumes lt: "t < GenesisTime c"
  shows "epochAt c t =
           (if SecondsPerEpoch c = 0 then Panics DivideByZero
            else Returns (GenesisEpoch c + (t - GenesisTime c) div SecondsPerEpoch c))
         \<and> unat ((t - GenesisTime c) div SecondsPerEpoch c) =
             (2 ^ 64 - (unat (GenesisTime c) - unat t)) div unat (SecondsPerEpoch c)
         \<and> unat (GenesisEpoch c + (t - GenesisTime c) div SecondsPerEpoch c) =
             (unat (GenesisEpoch c) + (2 ^ 64 - (unat (GenesisTime c) - unat t)) div unat (SecondsPerEpoch c))
               mod 2 ^ 64"
proof -
  have lt': "unat t < unat (GenesisTime c)" using lt by (simp add: word_less_nat_alt)
  have "unat (GenesisTime c) < 2 ^ 64" using unsigned_less [of "GenesisTime c"] by simp
  then have "unat (t - GenesisTime c) = 2 ^ 64 - (unat (GenesisTime c) - unat t)"
    using lt' by (simp add: unat_sub_if')
  then have q: "unat ((t - GenesisTime c) div SecondsPerEpoch c) =
             (2 ^ 64 - (unat (GenesisTime c) - unat t)) div unat (SecondsPerEpoch c)"
    by (simp add: unat_div)
  have "unat (GenesisEpoch c + (t - GenesisTime c) div SecondsPerEpoch c) =
        (unat (GenesisEpoch c) + unat ((t - GenesisTime c) div SecondsPerEpoch c)) mod 2 ^ 64"
    by (simp add: unat_word_ariths)
  then show ?thesis
    using q by (simp add: epochAt_def uint64_div_def)
qed

text \<open>
  C9, an instance: with the genesis time 1606824023 and 384-second epochs, time 0 resolves
  to epoch 48038396021100853.
\<close>

theorem epochAt_before_genesis_witness:
  "(0 :: uint64) < GenesisTime \<lparr>GenesisEpoch = 0, GenesisTime = 1606824023, SecondsPerSlot = 12, SlotsPerEpoch = 32, SecondsPerEpoch = 384\<rparr>
   \<and> epochAt \<lparr>GenesisEpoch = 0, GenesisTime = 1606824023, SecondsPerSlot = 12, SlotsPerEpoch = 32, SecondsPerEpoch = 384\<rparr> 0 = Returns 48038396021100853"
  using epochAt_before_genesis [of 0 "\<lparr>GenesisEpoch = 0, GenesisTime = 1606824023, SecondsPerSlot = 12, SlotsPerEpoch = 32, SecondsPerEpoch = 384\<rparr>"]
  by simp

text \<open>
  C9 as stated fails in two ways: with an epoch length of zero \<open>epochAt\<close> does fail before
  genesis, by a panic; and with a very long epoch (\<open>2 ^ 64 - 1\<close> seconds) the result is
  epoch 0, which is not a large number.
\<close>

theorem epochAt_before_genesis_zero_epoch_length:
  "(400 :: uint64) < GenesisTime (scenario_config\<lparr>SecondsPerEpoch := 0\<rparr>)
   \<and> epochAt (scenario_config\<lparr>SecondsPerEpoch := 0\<rparr>) 400 = Panics DivideByZero
   \<and> (400 :: uint64) < GenesisTime (scenario_config\<lparr>SecondsPerEpoch := - 1\<rparr>)
   \<and> epochAt (scenario_config\<lparr>SecondsPerEpoch := - 1\<rparr>) 400 = Returns 0"
  by (simp add: scenario_config_def epochAt_def uint64_div_def)

section \<open>Properties of the snapshot at the execution head\<close>

lemma int64_nonneg: "unat x < 2 ^ 63 \<Longrightarrow> int64 x = int (unat x)"
proof -
  assume a: "unat x < 2 ^ 63"
  define k where "k = unat x"
  have ux: "uint x = int k" by (simp add: k_def)
  have "k < 2 ^ 63" using a by (simp only: k_def)
  then have "int k < 2 ^ 63" by simp
  moreover have "- (2 ^ 63) \<le> int k" by simp
  ultimately have "signed_take_bit 63 (int k) = int k"
    by (rule signed_take_bit_int_eq_self[rotated])
  then have "int64 x = int k" by (simp add: int64_def sint_uint ux)
  then show ?thesis by (simp only: k_def)
qed

lemma secondsSinceGenesis_after:
  assumes ge: "g \<le> t"
    and rep: "unat t < 2 ^ 63 - 62135596800"
    and near: "unat t - unat g \<le> 9223372036"
  shows "secondsSinceGenesis impl t g = t - g"
proof -
  define T where "T = unat t"
  define G where "G = unat g"
  have le: "G \<le> T" using ge by (simp add: word_le_nat_alt T_def G_def)
  have repT: "T < 2 ^ 63 - 62135596800" using rep by (simp only: T_def)
  have it: "int64 t = int T" and ig: "int64 g = int G"
    unfolding T_def G_def using repT le by (simp_all add: int64_nonneg T_def G_def)
  have rt: "Unix_representable (int T)" and rg: "Unix_representable (int G)"
    using repT le by (simp_all add: Unix_representable_def)
  define n where "n = T - G"
  have diff: "int T - int G = int n" using le by (simp add: n_def)
  have n_le: "n \<le> 9223372036" using near by (simp add: n_def T_def G_def)
  have sub: "time_Sub impl (int T) (int G) = int n * 1000000000"
    using rt rg n_le by (simp add: time_Sub_def diff Let_def maxDuration_def minDuration_def)
  have secs: "Duration_Seconds (int n * 1000000000) = int n"
    by (cases "n = 0") (simp_all add: Duration_Seconds_def abs_mult)
  have conv: "uint64_of_float64 impl (int n) = word_of_nat n"
    using n_le by (simp add: uint64_of_float64_def)
  have "word_of_nat n = t - g"
    using le by (simp add: n_def of_nat_diff T_def G_def)
  then show ?thesis
    by (simp add: secondsSinceGenesis_def it ig sub secs conv Let_def)
qed


lemma secondsSinceGenesis_far:
  assumes rep: "unat t < 2 ^ 63 - 62135596800"
    and far: "unat g + 9223372036 < unat t"
  shows "secondsSinceGenesis impl t g = 9223372036"
proof -
  define T where "T = unat t"
  define G where "G = unat g"
  have far': "G + 9223372036 < T" using far by (simp only: T_def G_def)
  have repT: "T < 2 ^ 63 - 62135596800" using rep by (simp only: T_def)
  have it: "int64 t = int T" and ig: "int64 g = int G"
    unfolding T_def G_def using repT far' by (simp_all add: int64_nonneg T_def G_def)
  have rt: "Unix_representable (int T)" and rg: "Unix_representable (int G)"
    using repT far' by (simp_all add: Unix_representable_def)
  have "maxDuration < (int T - int G) * 1000000000"
    using far' by (simp add: maxDuration_def)
  then have sub: "time_Sub impl (int T) (int G) = maxDuration"
    using rt rg by (simp add: time_Sub_def Let_def)
  have secs: "Duration_Seconds maxDuration = 9223372036"
    by (simp add: Duration_Seconds_def maxDuration_def)
  show ?thesis
    by (simp add: secondsSinceGenesis_def it ig sub secs uint64_of_float64_def Let_def)
qed

lemma secondsSinceGenesis_from_genesis_on:
  assumes ge: "g \<le> t"
    and rep: "unat t < 2 ^ 63 - 62135596800"
  shows "secondsSinceGenesis impl t g = word_of_nat (min (unat t - unat g) 9223372036)"
proof (cases "unat t - unat g \<le> 9223372036")
  case True
  have "unat g \<le> unat t" using ge by (simp add: word_le_nat_alt)
  then have "word_of_nat (unat t - unat g) = t - g" by (simp add: of_nat_diff)
  then show ?thesis
    using secondsSinceGenesis_after [OF ge rep True, of impl] True by (simp add: min_def)
next
  case False
  then have far: "unat g + 9223372036 < unat t" by simp
  show ?thesis
    using secondsSinceGenesis_far [OF rep far, of impl] False by (simp add: min_def)
qed

lemma getState_result: "snd (getState env m s) = CreateNetworkState env s (BeaconConfig m)"
  by (simp add: getState_def split: sum.splits)

lemma getState_builds: "hd (fst (getState env m s)) = EvCreateNetworkState s (BeaconConfig m)"
  by (simp add: getState_def split: sum.splits)

lemma GetHeadState_proceeds:
  "ec_HeaderByNumber env = Inr h \<Longrightarrow> SecondsPerSlot (BeaconConfig m) \<noteq> 0 \<Longrightarrow>
   GetHeadState impl env m =
     (EvHeaderByNumber
        # fst (getState env m
                 (secondsSinceGenesis impl (Time h) (GenesisTime (BeaconConfig m)) div SecondsPerSlot (BeaconConfig m))),
      Returns (snd (getState env m
                 (secondsSinceGenesis impl (Time h) (GenesisTime (BeaconConfig m)) div SecondsPerSlot (BeaconConfig m)))))"
  by (simp add: GetHeadState_def uint64_div_def split: prod.splits)

text \<open>
  C4, as amended. When the header's timestamp \<open>t\<close> is at or after the genesis time and has a
  time value in the Go library (\<open>t + 62135596800 < 2 ^ 63\<close>), and the slot length is not
  zero, \<open>GetHeadState\<close> resolves the slot
  \<open>floor (min (t - GenesisTime) 9223372036 / SecondsPerSlot)\<close> and hands exactly that slot,
  with the stored configuration, to the snapshot builder, whose result it returns.
  9223372036 seconds is the longest \<^verbatim>\<open>Duration\<close>, about 292 years: up to there the slot is
  \<open>floor ((t - GenesisTime) / SecondsPerSlot)\<close>.
\<close>

theorem GetHeadState_target_slot:
  assumes hdr: "ec_HeaderByNumber env = Inr h"
    and ge: "GenesisTime (BeaconConfig m) \<le> Time h"
    and rep: "unat (Time h) < 2 ^ 63 - 62135596800"
    and sps: "SecondsPerSlot (BeaconConfig m) \<noteq> 0"
  shows "(let secs = min (unat (Time h) - unat (GenesisTime (BeaconConfig m))) 9223372036;
              slot = word_of_nat secs div SecondsPerSlot (BeaconConfig m)
          in unat slot = secs div unat (SecondsPerSlot (BeaconConfig m))
             \<and> GetHeadState impl env m =
                 (EvHeaderByNumber # fst (getState env m slot), Returns (snd (getState env m slot)))
             \<and> hd (fst (getState env m slot)) = EvCreateNetworkState slot (BeaconConfig m)
             \<and> snd (getState env m slot) = CreateNetworkState env slot (BeaconConfig m))"
proof -
  define secs where "secs = min (unat (Time h) - unat (GenesisTime (BeaconConfig m))) 9223372036"
  have secs_le: "secs \<le> 9223372036" by (simp add: secs_def)
  have secs_eq: "secondsSinceGenesis impl (Time h) (GenesisTime (BeaconConfig m)) = word_of_nat secs"
    unfolding secs_def using ge rep by (rule secondsSinceGenesis_from_genesis_on)
  have "unat (word_of_nat secs :: uint64) = secs"
    using secs_le by (simp add: unat_of_nat)
  then have "unat (word_of_nat secs div SecondsPerSlot (BeaconConfig m)) =
             secs div unat (SecondsPerSlot (BeaconConfig m))"
    by (simp add: unat_div)
  then show ?thesis
    using GetHeadState_proceeds [OF hdr sps, of impl]
    unfolding secs_def [symmetric] Let_def
    by (simp add: secs_eq getState_result getState_builds)
qed

text \<open>
  C4, scenario A: genesis at 1000, 12-second slots, header timestamp 1600: slot 50.
\<close>

theorem GetHeadState_target_slot_scenario_A:
  "GetHeadState example_impl (scenario_env 1600 only_125_exists) (scenario_manager None) =
     ([EvHeaderByNumber, EvCreateNetworkState 50 scenario_config, EvLock, EvUnlock],
      Returns (Inr (scenario_state 50)))"
proof -
  have h: "ec_HeaderByNumber (scenario_env 1600 only_125_exists) = Inr \<lparr>Time = 1600\<rparr>"
    by (simp add: scenario_env_def)
  have slot: "(600::uint64) div 12 = 50" by simp
  show ?thesis
    using GetHeadState_target_slot [OF h, of "scenario_manager None" example_impl]
    by (simp add: scenario_manager_def scenario_config_def Let_def slot getState_def scenario_env_def)
qed

text \<open>
  C4 as stated fails for a header far after genesis: \<^verbatim>\<open>Sub\<close> saturates at the longest
  duration. With genesis at 1000 and the timestamp 10000001000 the elapsed time is
  10000000000 seconds, whose slot would be 833333333; the build is started for slot
  768614336, which is 9223372036 div 12.
\<close>

theorem GetHeadState_far_future_header:
  "GetHeadState example_impl (scenario_env 10000001000 only_125_exists) (scenario_manager None) =
     ([EvHeaderByNumber, EvCreateNetworkState 768614336 scenario_config, EvLock, EvUnlock],
      Returns (Inr (scenario_state 768614336)))
   \<and> GenesisTime (BeaconConfig (scenario_manager None)) \<le> 10000001000
   \<and> (10000001000 - 1000) div 12 = (833333333 :: nat)"
proof -
  have "secondsSinceGenesis example_impl 10000001000 1000 = 9223372036"
    by (rule secondsSinceGenesis_far) simp_all
  then show ?thesis
    by (simp add: GetHeadState_def scenario_env_def scenario_manager_def scenario_config_def
        uint64_div_def getState_def)
qed




section \<open>Properties of the finalized-block locator\<close>

subsection \<open>The loop, round by round\<close>

lemma probe_loop_missing:
  "missing G n s \<Longrightarrow>
   probe_loop G m n s tr = probe_loop G m (Suc n) (s - 1) (tr @ skips m s 1)"
  by (subst probe_loop.simps) (auto simp: missing_def split: prod.splits option.splits)

lemma probe_loop_error:
  "G n (fmt_Sprint s) = (b, ex, Some e) \<Longrightarrow>
   probe_loop G m n s tr =
     Some (tr @ [EvGetBeaconBlock (fmt_Sprint s)],
           Inl (Errorf ''error getting Beacon block %d: %w'' [ArgUint64 s] e))"
  by (subst probe_loop.simps) simp

lemma probe_loop_exists:
  "G n (fmt_Sprint s) = (b, True, None) \<Longrightarrow>
   probe_loop G m n s tr = Some (tr @ [EvGetBeaconBlock (fmt_Sprint s)], Inr b)"
  by (subst probe_loop.simps) simp

lemma probe_loop_skips:
  "(\<forall>i<k. missing G (n + i) (s - of_nat i)) \<Longrightarrow>
   probe_loop G m n s tr = probe_loop G m (n + k) (s - of_nat k) (tr @ skips m s k)"
proof (induction k arbitrary: n s tr)
  case 0
  then show ?case by simp
next
  case (Suc k)
  from Suc.prems have first: "missing G n s" by force
  have rest: "\<forall>i<k. missing G (Suc n + i) (s - 1 - of_nat i)"
  proof (intro allI impI)
    fix i assume "i < k"
    then have "missing G (n + Suc i) (s - of_nat (Suc i))" using Suc.prems by blast
    then show "missing G (Suc n + i) (s - 1 - of_nat i)" by (simp add: algebra_simps)
  qed
  have "probe_loop G m n s tr = probe_loop G m (Suc n) (s - 1) (tr @ skips m s 1)"
    using first by (rule probe_loop_missing)
  also have "\<dots> = probe_loop G m (Suc n + k) (s - 1 - of_nat k) ((tr @ skips m s 1) @ skips m (s - 1) k)"
    using rest by (rule Suc.IH)
  finally show ?case by (simp add: algebra_simps)
qed

lemma probe_loop_stops:
  "\<not> missing G n s \<Longrightarrow> \<exists>r. probe_loop G m n s tr = Some r"
  by (subst probe_loop.simps) (auto simp: missing_def split: prod.splits option.splits)

lemma probe_loop_Some_not_all_missing:
  assumes ret: "probe_loop G m n s tr = Some y"
  shows "\<exists>i. \<not> missing G (n + i) (s - of_nat i)"
proof (rule probe_loop.raw_induct
    [where P = "\<lambda>G m n s tr y. \<exists>i. \<not> missing G (n + i) (s - of_nat i)", OF _ ret])
  fix f :: "(nat \<Rightarrow> string \<Rightarrow> 'a \<times> bool \<times> error option) \<Rightarrow> NetworkStateManager \<Rightarrow> nat \<Rightarrow> uint64 \<Rightarrow>
     event list \<Rightarrow> (event list \<times> (error + 'a)) option"
  fix G m n s tr y
  assume IH: "\<And>G m n s tr y. f G m n s tr = Some y \<Longrightarrow> \<exists>i. \<not> missing G (n + i) (s - of_nat i)"
  assume body: "(case G n (fmt_Sprint s) of
        (block, exists, err) \<Rightarrow>
          (case err of
             None \<Rightarrow>
               if \<not> exists then
                 f G m (Suc n) (s - 1)
                   (tr @ [EvGetBeaconBlock (fmt_Sprint s)]
                       @ logLine m ''Slot %d was missing, trying the previous one...'' [ArgUint64 s])
               else Some (tr @ [EvGetBeaconBlock (fmt_Sprint s)], Inr block)
           | Some e \<Rightarrow>
               Some (tr @ [EvGetBeaconBlock (fmt_Sprint s)],
                     Inl (Errorf ''error getting Beacon block %d: %w'' [ArgUint64 s] e)))) = Some y"
  show "\<exists>i. \<not> missing G (n + i) (s - of_nat i)"
  proof (cases "missing G n s")
    case False
    then have "\<not> missing G (n + 0) (s - of_nat 0)" by simp
    then show ?thesis by blast
  next
    case True
    then have "f G m (Suc n) (s - 1)
        (tr @ [EvGetBeaconBlock (fmt_Sprint s)] @ logLine m ''Slot %d was missing, trying the previous one...'' [ArgUint64 s]) = Some y"
      using body by (auto simp: missing_def split: prod.splits option.splits if_splits)
    then obtain i where "\<not> missing G (Suc n + i) (s - 1 - of_nat i)"
      using IH by blast
    then have "\<not> missing G (n + Suc i) (s - of_nat (Suc i))" by (simp add: algebra_simps)
    then show ?thesis by blast
  qed
qed

lemma probe_loop_returns_iff:
  "(probe_loop G m n s tr \<noteq> None) = (\<exists>k. \<not> missing G (n + k) (s - of_nat k))"
proof
  assume "probe_loop G m n s tr \<noteq> None"
  then show "\<exists>k. \<not> missing G (n + k) (s - of_nat k)"
    using probe_loop_Some_not_all_missing by fastforce
next
  assume ex: "\<exists>k. \<not> missing G (n + k) (s - of_nat k)"
  define k where "k = (LEAST k. \<not> missing G (n + k) (s - of_nat k))"
  have at: "\<not> missing G (n + k) (s - of_nat k)"
    unfolding k_def using ex by (rule LeastI_ex)
  have before: "\<forall>i<k. missing G (n + i) (s - of_nat i)"
    unfolding k_def using not_less_Least by blast
  have "probe_loop G m n s tr = probe_loop G m (n + k) (s - of_nat k) (tr @ skips m s k)"
    using before by (rule probe_loop_skips)
  moreover obtain r where "probe_loop G m (n + k) (s - of_nat k) (tr @ skips m s k) = Some r"
    using probe_loop_stops [OF at] by blast
  ultimately show "probe_loop G m n s tr \<noteq> None" by simp
qed


lemma skips_probes:
  "filter (\<lambda>e. \<not> isPrintlnf e) (skips m s k) = map (\<lambda>i. EvGetBeaconBlock (fmt_Sprint (s - of_nat i))) [0..<k]"
proof (induction k arbitrary: s)
  case 0
  then show ?case by simp
next
  case (Suc k)
  have "map (\<lambda>i. EvGetBeaconBlock (fmt_Sprint (s - of_nat i))) [0..<Suc k] =
        EvGetBeaconBlock (fmt_Sprint s) # map (\<lambda>i. EvGetBeaconBlock (fmt_Sprint (s - 1 - of_nat i))) [0..<k]"
    by (simp add: map_upt_Suc algebra_simps del: upt_Suc)
  then show ?case
    using Suc.IH [of "s - 1"] by (simp add: logLine_def split: option.splits del: upt_Suc)
qed

lemma skips_lines:
  "filter isPrintlnf (skips m s k) =
     (if log m = None then [] else map (\<lambda>i. skip_line (s - of_nat i)) [0..<k])"
proof (induction k arbitrary: s)
  case 0
  then show ?case by simp
next
  case (Suc k)
  have "map (\<lambda>i. skip_line (s - of_nat i)) [0..<Suc k] =
        skip_line s # map (\<lambda>i. skip_line (s - 1 - of_nat i)) [0..<k]"
    by (simp add: map_upt_Suc algebra_simps del: upt_Suc)
  then show ?case
    using Suc.IH [of "s - 1"] by (simp add: logLine_def skip_line_def split: option.splits del: upt_Suc)
qed

lemma probe_loop_finds:
  assumes misses: "\<forall>i<k. missing G (n + i) (s - of_nat i)"
    and found: "G (n + k) (fmt_Sprint (s - of_nat k)) = (block, True, None)"
  shows "probe_loop G m n s tr =
           Some (tr @ skips m s k @ [EvGetBeaconBlock (fmt_Sprint (s - of_nat k))], Inr block)"
  using probe_loop_skips [OF misses, of m tr]
    probe_loop_exists [of G "n + k" "s - of_nat k" block m "tr @ skips m s k"] found
  by simp

lemma probe_loop_fails:
  assumes misses: "\<forall>i<k. missing G (n + i) (s - of_nat i)"
    and failed: "G (n + k) (fmt_Sprint (s - of_nat k)) = (block, ex, Some e)"
  shows "probe_loop G m n s tr =
           Some (tr @ skips m s k @ [EvGetBeaconBlock (fmt_Sprint (s - of_nat k))],
                 Inl (Errorf ''error getting Beacon block %d: %w'' [ArgUint64 (s - of_nat k)] e))"
  using probe_loop_skips [OF misses, of m tr]
    probe_loop_error [of G "n + k" "s - of_nat k" block ex e m "tr @ skips m s k"] failed
  by simp

lemma fmt_Sprint_127: "fmt_Sprint 127 = ''127''"
  by (simp add: fmt_Sprint_def fmt_decimal.simps)

lemma fmt_Sprint_126: "fmt_Sprint 126 = ''126''"
  by (simp add: fmt_Sprint_def fmt_decimal.simps)

lemma fmt_Sprint_125: "fmt_Sprint 125 = ''125''"
  by (simp add: fmt_Sprint_def fmt_decimal.simps)

lemma only_125_misses: "\<forall>i<2. missing only_125_exists (n + i) (127 - of_nat i)"
  by (simp add: missing_def only_125_exists_def fmt_Sprint_127 fmt_Sprint_126 less_Suc_eq numeral_2_eq_2)

lemma fmt_Sprint_0: "fmt_Sprint 0 = ''0''"
  by (simp add: fmt_Sprint_def fmt_decimal.simps)

lemma fmt_Sprint_max: "fmt_Sprint 18446744073709551615 = ''18446744073709551615''"
  by (simp add: fmt_Sprint_def fmt_decimal.simps)

lemma fmt_Sprint_below_0: "fmt_Sprint (- 1) = ''18446744073709551615''"
proof -
  have "(- 1 :: uint64) = 18446744073709551615" by simp
  then show ?thesis by (simp only: fmt_Sprint_max)
qed

subsection \<open>Finding the newest existing block\<close>

text \<open>
  C1, as amended. When the beacon head is fetched, its finalized epoch is \<open>e\<close>, the first
  \<open>k\<close> probes answer "missing" without error and the next probe answers with an existing
  block, \<open>GetLatestFinalizedBeaconBlock\<close> starts at
  \<open>e * SlotsPerEpoch + (SlotsPerEpoch - 1)\<close>, probes the slots downwards one by one (in
  \<^verbatim>\<open>uint64\<close> arithmetic), and returns the block of probe \<open>k\<close>. After each missing slot it
  calls \<open>logLine\<close> once: the manager's logger receives exactly one line per skipped
  slot, in order, when the manager has a logger, and nothing is printed when it has none.
\<close>

theorem GetLatestFinalizedBeaconBlock_finds:
  assumes head: "bc_GetBeaconHead env = Inr head"
    and start: "start = FinalizedEpoch head * SlotsPerEpoch (BeaconConfig m) + (SlotsPerEpoch (BeaconConfig m) - 1)"
    and misses: "\<forall>i<k. missing (bc_GetBeaconBlock env) i (start - of_nat i)"
    and found: "bc_GetBeaconBlock env k (fmt_Sprint (start - of_nat k)) = (block, True, None)"
  shows "GetLatestFinalizedBeaconBlock env m =
           Some ([EvGetBeaconHead] @ skips m start k @ [EvGetBeaconBlock (fmt_Sprint (start - of_nat k))],
                 Inr block)
         \<and> filter (\<lambda>e. \<not> isPrintlnf e) (skips m start k) =
             map (\<lambda>i. EvGetBeaconBlock (fmt_Sprint (start - of_nat i))) [0..<k]
         \<and> filter isPrintlnf (skips m start k) =
             (if log m = None then [] else map (\<lambda>i. skip_line (start - of_nat i)) [0..<k])"
proof -
  have m0: "\<forall>i<k. missing (bc_GetBeaconBlock env) (0 + i) (start - of_nat i)"
    using misses by simp
  have f0: "bc_GetBeaconBlock env (0 + k) (fmt_Sprint (start - of_nat k)) = (block, True, None)"
    using found by simp
  have "probe_loop (bc_GetBeaconBlock env) m 0 start [EvGetBeaconHead] =
          Some ([EvGetBeaconHead] @ skips m start k @ [EvGetBeaconBlock (fmt_Sprint (start - of_nat k))],
                Inr block)"
    using m0 f0 by (rule probe_loop_finds)
  then have "GetLatestFinalizedBeaconBlock env m =
           Some ([EvGetBeaconHead] @ skips m start k @ [EvGetBeaconBlock (fmt_Sprint (start - of_nat k))],
                 Inr block)"
    using head start by (simp add: GetLatestFinalizedBeaconBlock_def)
  then show ?thesis by (simp only: skips_probes skips_lines simp_thms)
qed

text \<open>
  C1, scenario B: finalized epoch 3, 32 slots per epoch, slots 127 and 126 empty, 125
  exists, a logger present: the block of slot 125 is returned after exactly two skip
  lines, for 127 and 126.
\<close>

theorem GetLatestFinalizedBeaconBlock_scenario_B:
  "GetLatestFinalizedBeaconBlock (scenario_env 1600 only_125_exists) (scenario_manager (Some ColorLogger)) =
     Some ([EvGetBeaconHead,
            EvGetBeaconBlock ''127'', skip_line 127,
            EvGetBeaconBlock ''126'', skip_line 126,
            EvGetBeaconBlock ''125''],
           Inr ''125'')"
proof -
  have head: "bc_GetBeaconHead (scenario_env 1600 only_125_exists) = Inr \<lparr>FinalizedEpoch = 3\<rparr>"
    by (simp add: scenario_env_def)
  have start: "127 = FinalizedEpoch \<lparr>FinalizedEpoch = 3\<rparr> * SlotsPerEpoch (BeaconConfig (scenario_manager (Some ColorLogger)))
                   + (SlotsPerEpoch (BeaconConfig (scenario_manager (Some ColorLogger))) - 1)"
    by (simp add: scenario_manager_def scenario_config_def)
  have misses: "\<forall>i<2. missing (bc_GetBeaconBlock (scenario_env 1600 only_125_exists)) i (127 - of_nat i)"
    using only_125_misses [of 0] by (simp add: scenario_env_def)
  have found: "bc_GetBeaconBlock (scenario_env 1600 only_125_exists) 2 (fmt_Sprint (127 - of_nat 2)) = (''125'', True, None)"
    by (simp add: scenario_env_def only_125_exists_def fmt_Sprint_125)
  show ?thesis
    using GetLatestFinalizedBeaconBlock_finds [OF head start misses found]
    by (simp add: numeral_2_eq_2 fmt_Sprint_127 fmt_Sprint_126 fmt_Sprint_125 logLine_def
        scenario_manager_def skip_line_def)
qed

text \<open>
  C1 as stated fails for a manager without a logger: in scenario B the block of slot 125
  is returned and no skip is reported.
\<close>

theorem GetLatestFinalizedBeaconBlock_scenario_B_without_logger:
  "GetLatestFinalizedBeaconBlock (scenario_env 1600 only_125_exists) (scenario_manager None) =
     Some ([EvGetBeaconHead, EvGetBeaconBlock ''127'', EvGetBeaconBlock ''126'', EvGetBeaconBlock ''125''],
           Inr ''125'')"
proof -
  have found: "only_125_exists (0 + 2) (fmt_Sprint (127 - of_nat 2)) = (''125'', True, None)"
    by (simp add: only_125_exists_def fmt_Sprint_125)
  show ?thesis
    using probe_loop_finds [OF only_125_misses found, of "scenario_manager None" "[EvGetBeaconHead]"]
    by (simp add: GetLatestFinalizedBeaconBlock_def scenario_env_def scenario_config_def
        numeral_2_eq_2 fmt_Sprint_127 fmt_Sprint_126 fmt_Sprint_125 logLine_def scenario_manager_def)
qed

subsection \<open>Termination\<close>

text \<open>
  C2, as amended. \<open>GetLatestFinalizedBeaconBlock\<close> has no check for slot 0 and no bound
  on the number of skips. It returns exactly when the head cannot be fetched or some probe
  of the downward scan (taken in \<^verbatim>\<open>uint64\<close> arithmetic) answers with an error or an
  existing block; when every probe answers "missing" without error it never returns.
\<close>

theorem GetLatestFinalizedBeaconBlock_returns_iff:
  "(GetLatestFinalizedBeaconBlock env m \<noteq> None) =
     (case bc_GetBeaconHead env of
        Inl err \<Rightarrow> True
      | Inr head \<Rightarrow>
          \<exists>k. \<not> missing (bc_GetBeaconBlock env) k
                 (FinalizedEpoch head * SlotsPerEpoch (BeaconConfig m) + (SlotsPerEpoch (BeaconConfig m) - 1)
                    - of_nat k))"
  using probe_loop_returns_iff [of "bc_GetBeaconBlock env" m 0 _ "[EvGetBeaconHead]"]
  by (simp add: GetLatestFinalizedBeaconBlock_def split: sum.splits)

text \<open>
  C2, an instance: in scenario B the third probe finds block 125, so the locator returns.
\<close>

theorem GetLatestFinalizedBeaconBlock_returns_iff_witness:
  "GetLatestFinalizedBeaconBlock (scenario_env 1600 only_125_exists) (scenario_manager None) \<noteq> None"
proof -
  have "\<not> missing only_125_exists 2 (127 - of_nat 2)"
    by (simp add: missing_def only_125_exists_def fmt_Sprint_125)
  then have "\<exists>k. \<not> missing only_125_exists k (127 - of_nat k)" by (rule exI)
  then show ?thesis
    using GetLatestFinalizedBeaconBlock_returns_iff
      [of "scenario_env 1600 only_125_exists" "scenario_manager None"]
    by (simp add: scenario_env_def scenario_manager_def scenario_config_def)
qed

text \<open>
  C2 as stated fails. When no block exists at all, the scan from slot 127 passes slot 0
  and never returns, so no error is reported. And when the scan starts at slot 0
  (finalized epoch 0, one slot per epoch), slot 0 is missing and only slot
  \<open>2 ^ 64 - 1\<close> exists, the locator goes on below slot 0 and returns that block.
\<close>

theorem GetLatestFinalizedBeaconBlock_below_slot_0:
  "GetLatestFinalizedBeaconBlock (scenario_env 1600 nothing_exists) (scenario_manager None) = None
   \<and> GetLatestFinalizedBeaconBlock
       ((scenario_env 1600 only_max_exists)\<lparr>bc_GetBeaconHead := Inr \<lparr>FinalizedEpoch = 0\<rparr>\<rparr>)
       ((scenario_manager None)\<lparr>BeaconConfig := scenario_config\<lparr>SlotsPerEpoch := 1\<rparr>\<rparr>) =
     Some ([EvGetBeaconHead, EvGetBeaconBlock ''0'', EvGetBeaconBlock ''18446744073709551615''],
           Inr ''18446744073709551615'')"
proof -
  have all_missing: "\<not> (\<exists>k. \<not> missing nothing_exists (0 + k) (127 - of_nat k))"
    by (simp add: missing_def nothing_exists_def)
  have "(probe_loop nothing_exists (scenario_manager None) 0 127 [EvGetBeaconHead] \<noteq> None) =
          (\<exists>k. \<not> missing nothing_exists (0 + k) (127 - of_nat k))"
    by (rule probe_loop_returns_iff)
  then have "\<not> (probe_loop nothing_exists (scenario_manager None) 0 127 [EvGetBeaconHead] \<noteq> None)"
    using all_missing by (rule ssubst)
  then have "probe_loop nothing_exists (scenario_manager None) 0 127 [EvGetBeaconHead] = None"
    by (simp only: not_not)
  then have never: "GetLatestFinalizedBeaconBlock (scenario_env 1600 nothing_exists) (scenario_manager None) = None"
    by (simp add: GetLatestFinalizedBeaconBlock_def scenario_env_def scenario_manager_def scenario_config_def)
  have misses: "\<forall>i<1. missing only_max_exists (0 + i) (0 - of_nat i)"
    by (simp add: missing_def only_max_exists_def fmt_Sprint_0)
  have found: "only_max_exists (0 + 1) (fmt_Sprint (0 - of_nat 1)) = (''18446744073709551615'', True, None)"
    by (simp add: only_max_exists_def fmt_Sprint_below_0)
  have "probe_loop only_max_exists ((scenario_manager None)\<lparr>BeaconConfig := scenario_config\<lparr>SlotsPerEpoch := 1\<rparr>\<rparr>) 0 0 [EvGetBeaconHead] =
     Some ([EvGetBeaconHead, EvGetBeaconBlock ''0'', EvGetBeaconBlock ''18446744073709551615''],
           Inr ''18446744073709551615'')"
    using probe_loop_finds [OF misses found, of "(scenario_manager None)\<lparr>BeaconConfig := scenario_config\<lparr>SlotsPerEpoch := 1\<rparr>\<rparr>" "[EvGetBeaconHead]"]
    by (simp add: fmt_Sprint_0 fmt_Sprint_below_0 logLine_def scenario_manager_def)
  then have wraps: "GetLatestFinalizedBeaconBlock
       ((scenario_env 1600 only_max_exists)\<lparr>bc_GetBeaconHead := Inr \<lparr>FinalizedEpoch = 0\<rparr>\<rparr>)
       ((scenario_manager None)\<lparr>BeaconConfig := scenario_config\<lparr>SlotsPerEpoch := 1\<rparr>\<rparr>) =
     Some ([EvGetBeaconHead, EvGetBeaconBlock ''0'', EvGetBeaconBlock ''18446744073709551615''],
           Inr ''18446744073709551615'')"
    by (simp add: GetLatestFinalizedBeaconBlock_def scenario_env_def scenario_manager_def scenario_config_def)
  show ?thesis using never wraps by simp
qed

subsection \<open>A failed probe\<close>

text \<open>
  C3. When the head is fetched, the first \<open>k\<close> probes answer "missing" without error and
  the next probe returns an error (whatever its \<^verbatim>\<open>exists\<close> flag says),
  \<open>GetLatestFinalizedBeaconBlock\<close> returns that error wrapped with the slot it was
  probing, and the failed probe is the last event: no log line, no decrement and no
  further probe follow it. The probes made are exactly those of the slots from the start
  down to the failed one.
\<close>

theorem GetLatestFinalizedBeaconBlock_rpc_error:
  assumes head: "bc_GetBeaconHead env = Inr head"
    and start: "start = FinalizedEpoch head * SlotsPerEpoch (BeaconConfig m) + (SlotsPerEpoch (BeaconConfig m) - 1)"
    and misses: "\<forall>i<k. missing (bc_GetBeaconBlock env) i (start - of_nat i)"
    and failed: "bc_GetBeaconBlock env k (fmt_Sprint (start - of_nat k)) = (block, ex, Some e)"
  shows "GetLatestFinalizedBeaconBlock env m =
           Some ([EvGetBeaconHead] @ skips m start k @ [EvGetBeaconBlock (fmt_Sprint (start - of_nat k))],
                 Inl (Errorf ''error getting Beacon block %d: %w'' [ArgUint64 (start - of_nat k)] e))
         \<and> filter (\<lambda>e. \<not> isPrintlnf e) (skips m start k @ [EvGetBeaconBlock (fmt_Sprint (start - of_nat k))]) =
             map (\<lambda>i. EvGetBeaconBlock (fmt_Sprint (start - of_nat i))) [0..<Suc k]"
proof -
  have m0: "\<forall>i<k. missing (bc_GetBeaconBlock env) (0 + i) (start - of_nat i)"
    using misses by simp
  have f0: "bc_GetBeaconBlock env (0 + k) (fmt_Sprint (start - of_nat k)) = (block, ex, Some e)"
    using failed by simp
  have "probe_loop (bc_GetBeaconBlock env) m 0 start [EvGetBeaconHead] =
          Some ([EvGetBeaconHead] @ skips m start k @ [EvGetBeaconBlock (fmt_Sprint (start - of_nat k))],
                Inl (Errorf ''error getting Beacon block %d: %w'' [ArgUint64 (start - of_nat k)] e))"
    using m0 f0 by (rule probe_loop_fails)
  then have "GetLatestFinalizedBeaconBlock env m =
           Some ([EvGetBeaconHead] @ skips m start k @ [EvGetBeaconBlock (fmt_Sprint (start - of_nat k))],
                 Inl (Errorf ''error getting Beacon block %d: %w'' [ArgUint64 (start - of_nat k)] e))"
    using head start by (simp add: GetLatestFinalizedBeaconBlock_def)
  then show ?thesis by (simp add: skips_probes)
qed

text \<open>
  C3, an instance: slot 127 is missing and the probe of slot 126 times out.
\<close>

theorem GetLatestFinalizedBeaconBlock_rpc_error_witness:
  "GetLatestFinalizedBeaconBlock (scenario_env 1600 probe_126_fails) (scenario_manager (Some ColorLogger)) =
     Some ([EvGetBeaconHead, EvGetBeaconBlock ''127'', skip_line 127, EvGetBeaconBlock ''126''],
           Inl (Errorf ''error getting Beacon block %d: %w'' [ArgUint64 126] (ClientError ''timeout'')))"
proof -
  have head: "bc_GetBeaconHead (scenario_env 1600 probe_126_fails) = Inr \<lparr>FinalizedEpoch = 3\<rparr>"
    by (simp add: scenario_env_def)
  have start: "127 = FinalizedEpoch \<lparr>FinalizedEpoch = 3\<rparr> * SlotsPerEpoch (BeaconConfig (scenario_manager (Some ColorLogger)))
                   + (SlotsPerEpoch (BeaconConfig (scenario_manager (Some ColorLogger))) - 1)"
    by (simp add: scenario_manager_def scenario_config_def)
  have misses: "\<forall>i<1. missing (bc_GetBeaconBlock (scenario_env 1600 probe_126_fails)) i (127 - of_nat i)"
    by (simp add: scenario_env_def missing_def probe_126_fails_def fmt_Sprint_127)
  have failed: "bc_GetBeaconBlock (scenario_env 1600 probe_126_fails) 1 (fmt_Sprint (127 - of_nat 1)) =
                  (''126'', False, Some (ClientError ''timeout''))"
    by (simp add: scenario_env_def probe_126_fails_def fmt_Sprint_126)
  show ?thesis
    using GetLatestFinalizedBeaconBlock_rpc_error [OF head start misses failed]
    by (simp add: fmt_Sprint_127 fmt_Sprint_126 logLine_def scenario_manager_def skip_line_def)
qed

section \<open>Properties of the construction\<close>




lemma GetHeadState_builds_with_stored_config:
  "EvCreateNetworkState s c \<in> set (fst (GetHeadState impl env m)) \<Longrightarrow> c = BeaconConfig m"
  by (auto simp: GetHeadState_def uint64_div_def getState_def split: sum.splits prod.splits if_splits)







section \<open>Properties of the ODAO metrics collector\<close>

lemma float64_of_uint64_exact: "unat x < 2 ^ 53 \<Longrightarrow> float64_of_uint64 x = int (unat x)"
proof -
  assume a: "unat x < 2 ^ 53"
  have "\<And>j. \<not> (2::nat) ^ (53 + j) \<le> unat x"
  proof -
    fix j
    have "(2::nat) ^ 53 \<le> 2 ^ (53 + j)" by (rule power_increasing) simp_all
    then show "\<not> (2::nat) ^ (53 + j) \<le> unat x" using a by linarith
  qed
  then have "filter (\<lambda>j. 2 ^ (53 + j) \<le> unat x) [0..<11] = []"
    by (simp add: filter_empty_conv)
  then show ?thesis by (simp add: float64_of_uint64_def Let_def)
qed

lemma collectImpl_Legacy_calls:
  "rpc_calls (collectImpl_Legacy sched impl rpc) = {BlockNumber, GetPricesBlock, GetLatestReportablePricesBlock}"
  by (simp add: collectImpl_Legacy_def Let_def split: prod.splits option.splits)

lemma collectImpl_Legacy_channel:
  "channel (collectImpl_Legacy sched impl rpc) =
     (case (rp_Client_BlockNumber rpc, network_GetPricesBlock rpc, network_GetLatestReportablePricesBlock rpc) of
        (Inr bn, Inr pb, Inr lrb) \<Rightarrow>
          [(currentEth1Block, float64_of_uint64 bn),
           (pricesBlock, float64_of_uint64 pb),
           (effectiveRplStakeBlock, float64_of_uint64 pb),
           (latestReportableBlock, float64_of_uint64 (big_Uint64 impl lrb))]
      | _ \<Rightarrow> [])"
  by (simp add: collectImpl_Legacy_def go_BlockNumber_def go_PricesBlock_def go_LatestReportableBlock_def
      wg_Wait_def List.map_filter_simps Let_def split: sum.splits)

lemma collectImpl_Atlas_channel:
  "channel (collectImpl_Atlas state) =
     [(currentEth1Block, float64_of_uint64 (ElBlockNumber state)),
      (pricesBlock, float64_of_uint64 (PricesBlock (NetworkDetails state))),
      (effectiveRplStakeBlock, float64_of_uint64 (PricesBlock (NetworkDetails state))),
      (latestReportableBlock, float64_of_uint64 (LatestReportablePricesBlock (NetworkDetails state)))]"
  by (simp add: collectImpl_Atlas_def Let_def)

text \<open>
  C8. When the state locker holds a snapshot, \<open>Collect\<close> issues no direct query and sends
  the four gauges read from the snapshot, whatever the scheduler, the implementation and
  the answers of the clients are. When it holds none, \<open>Collect\<close> is the legacy path and
  issues the three direct queries. So it issues no direct query exactly when a snapshot
  is cached.
\<close>

theorem OdaoCollector_Collect_path:
  "(latestState = Some state \<longrightarrow>
      OdaoCollector_Collect sched impl rpc latestState = collectImpl_Atlas state
      \<and> rpc_calls (OdaoCollector_Collect sched impl rpc latestState) = {}
      \<and> channel (OdaoCollector_Collect sched impl rpc latestState) =
          [(currentEth1Block, float64_of_uint64 (ElBlockNumber state)),
           (pricesBlock, float64_of_uint64 (PricesBlock (NetworkDetails state))),
           (effectiveRplStakeBlock, float64_of_uint64 (PricesBlock (NetworkDetails state))),
           (latestReportableBlock, float64_of_uint64 (LatestReportablePricesBlock (NetworkDetails state)))]
      \<and> OdaoCollector_Collect sched' impl' rpc' latestState = OdaoCollector_Collect sched impl rpc latestState)
   \<and> (latestState = None \<longrightarrow>
      OdaoCollector_Collect sched impl rpc latestState = collectImpl_Legacy sched impl rpc
      \<and> rpc_calls (OdaoCollector_Collect sched impl rpc latestState) =
          {BlockNumber, GetPricesBlock, GetLatestReportablePricesBlock})
   \<and> (rpc_calls (OdaoCollector_Collect sched impl rpc latestState) = {}) = (latestState \<noteq> None)"
proof (cases latestState)
  case None
  then show ?thesis
    by (simp add: OdaoCollector_Collect_def collectImpl_Legacy_calls)
next
  case (Some st)
  then show ?thesis
    by (simp add: OdaoCollector_Collect_def collectImpl_Atlas_def Let_def)
qed

text \<open>
  C8, instances: with the scenario's snapshot for slot 50 cached, its values are the
  gauges; with nothing cached the three queries are issued.
\<close>

theorem OdaoCollector_Collect_path_witness:
  "OdaoCollector_Collect 0 example_impl scenario_rpc (Some (scenario_state 50)) =
     \<lparr>rpc_calls = {},
      channel = [(currentEth1Block, 17000050), (pricesBlock, 16999000),
                 (effectiveRplStakeBlock, 16999000), (latestReportableBlock, 16999500)],
      printed = []\<rparr>
   \<and> rpc_calls (OdaoCollector_Collect 0 example_impl scenario_rpc None) =
       {BlockNumber, GetPricesBlock, GetLatestReportablePricesBlock}"
proof -
  have cached: "OdaoCollector_Collect 0 example_impl scenario_rpc (Some (scenario_state 50)) =
                  collectImpl_Atlas (scenario_state 50)"
    using OdaoCollector_Collect_path
        [of "Some (scenario_state 50)" "scenario_state 50" 0 example_impl scenario_rpc 0 example_impl scenario_rpc]
    by simp
  have legacy: "rpc_calls (OdaoCollector_Collect 0 example_impl scenario_rpc None) =
       {BlockNumber, GetPricesBlock, GetLatestReportablePricesBlock}"
    using OdaoCollector_Collect_path
        [of None "scenario_state 50" 0 example_impl scenario_rpc 0 example_impl scenario_rpc]
    by blast
  show ?thesis
    using cached legacy
    by (simp add: collectImpl_Atlas_def Let_def scenario_state_def float64_of_uint64_exact)
qed

text \<open>
  C10. On both paths the channel carries each gauge at most once, and the value sent for
  the effective-RPL-stake-block gauge is the value sent for the prices-block gauge; a
  collection that sends anything sends both.
\<close>

theorem OdaoCollector_effective_stake_block:
  "map_of (channel (OdaoCollector_Collect sched impl rpc latestState)) effectiveRplStakeBlock =
     map_of (channel (OdaoCollector_Collect sched impl rpc latestState)) pricesBlock
   \<and> distinct (map fst (channel (OdaoCollector_Collect sched impl rpc latestState)))
   \<and> (channel (OdaoCollector_Collect sched impl rpc latestState) \<noteq> [] \<longrightarrow>
        (\<exists>v. (pricesBlock, v) \<in> set (channel (OdaoCollector_Collect sched impl rpc latestState))
           \<and> (effectiveRplStakeBlock, v) \<in> set (channel (OdaoCollector_Collect sched impl rpc latestState))))"
proof (cases latestState)
  case None
  then show ?thesis
    by (simp add: OdaoCollector_Collect_def collectImpl_Legacy_channel split: sum.splits)
next
  case (Some state)
  then show ?thesis
    by (simp add: OdaoCollector_Collect_def collectImpl_Atlas_channel)
qed

text \<open>
  C10, an instance on the legacy path: both gauges carry the prices block 16999000.
\<close>

theorem OdaoCollector_effective_stake_block_witness:
  "channel (OdaoCollector_Collect 0 example_impl scenario_rpc None) =
     [(currentEth1Block, 17000050), (pricesBlock, 16999000),
      (effectiveRplStakeBlock, 16999000), (latestReportableBlock, 16999500)]
   \<and> map_of (channel (OdaoCollector_Collect 0 example_impl scenario_rpc None)) effectiveRplStakeBlock = Some 16999000
   \<and> map_of (channel (OdaoCollector_Collect 0 example_impl scenario_rpc None)) pricesBlock = Some 16999000"
proof -
  have ch: "channel (OdaoCollector_Collect 0 example_impl scenario_rpc None) =
     [(currentEth1Block, 17000050), (pricesBlock, 16999000),
      (effectiveRplStakeBlock, 16999000), (latestReportableBlock, 16999500)]"
    by (simp add: OdaoCollector_Collect_def collectImpl_Legacy_channel scenario_rpc_def
        float64_of_uint64_exact big_Uint64_def)
  show ?thesis
    using OdaoCollector_effective_stake_block [of 0 example_impl scenario_rpc None]
    by (simp add: ch)
qed

end
